theory Spec2Isabelle
  imports Complex_Main "HOL-Library.AList"
begin

section \<open>Python values, exceptions and string helpers\<close>

text \<open>
  The ingestion backend (\<^verbatim>\<open>elasticsearch-rag-manager/backend\<close>) works on JSON-shaped
  Python values: job settings, document properties and the executor's \<^verbatim>\<open>output\<close> slot
  are dictionaries, lists and strings. They are modelled by one datatype. A dictionary
  is an association list in insertion order. Embedding vectors (lists of floats, numpy
  arrays) are values of an abstract type \<open>'v\<close>.
\<close>

datatype 'v pyval =
    PNone
  | PBool bool
  | PInt int
  | PStr string
  | PVec 'v
  | PList "'v pyval list"
  | PDict "(string \<times> 'v pyval) list"

text \<open>
  Exceptions are values. \<open>Raised\<close> is an exception thrown inside an external
  collaborator (document store, embedding provider, extraction library).
\<close>

datatype exn =
    KeyError string
  | TypeError
  | ValueError
  | ZeroDivisionError
  | AttributeError
  | UnboundLocalError string
  | NameError string
  | Raised string

text \<open>Sequencing of two computations that may raise: the first exception ends the run.\<close>

definition and_then :: "exn + 'a \<Rightarrow> ('a \<Rightarrow> exn + 'b) \<Rightarrow> exn + 'b" where
  "and_then r f = (case r of Inl e \<Rightarrow> Inl e | Inr x \<Rightarrow> f x)"

text \<open>\<^verbatim>\<open>d[k]\<close>: KeyError when the key is missing, TypeError when \<^verbatim>\<open>d\<close> is not a dictionary.\<close>

fun getitem :: "'v pyval \<Rightarrow> string \<Rightarrow> exn + 'v pyval" where
  "getitem (PDict kvs) k = (case map_of kvs k of None \<Rightarrow> Inl (KeyError k) | Some v \<Rightarrow> Inr v)"
| "getitem _ k = Inl TypeError"

text \<open>\<^verbatim>\<open>d[k] = v\<close> on a dictionary: the key keeps its position, a new key goes last.\<close>

fun setitem :: "'v pyval \<Rightarrow> string \<Rightarrow> 'v pyval \<Rightarrow> exn + 'v pyval" where
  "setitem (PDict kvs) k v = Inr (PDict (AList.update k v kvs))"
| "setitem _ k v = Inl TypeError"

text \<open>\<^verbatim>\<open>s.split(" ")\<close>: cuts at every single space; \<open>n\<close> spaces give \<open>n + 1\<close> tokens.\<close>

fun split_on :: "char \<Rightarrow> string \<Rightarrow> string list" where
  "split_on c [] = [[]]"
| "split_on c (x # xs) =
     (if x = c then [] # split_on c xs
      else (case split_on c xs of [] \<Rightarrow> [[x]] | w # ws \<Rightarrow> (x # w) # ws))"

definition split_space :: "string \<Rightarrow> string list" where
  "split_space s = split_on (CHR '' '') s"

text \<open>\<^verbatim>\<open>" ".join(tokens)\<close>\<close>

fun join_space :: "string list \<Rightarrow> string" where
  "join_space [] = []"
| "join_space [w] = w"
| "join_space (w # ws) = w @ '' '' @ join_space ws"

text \<open>
  \<^verbatim>\<open>s.strip()\<close> removes white space at both ends. Characters are code points below
  256; the white space among them is 9-13, 28-32, 0x85 and 0xA0.
\<close>

definition is_space :: "char \<Rightarrow> bool" where
  "is_space c = (let n = of_char c :: nat in
     (9 \<le> n \<and> n \<le> 13) \<or> (28 \<le> n \<and> n \<le> 32) \<or> n = 133 \<or> n = 160)"

definition strip :: "string \<Rightarrow> string" where
  "strip s = rev (dropWhile is_space (rev (dropWhile is_space s)))"

text \<open>
  \<^verbatim>\<open>re.split(r'(?<=\.) |\n', text)\<close>: the text is cut at every newline and at every
  space that directly follows a full stop; the separators are dropped. The first argument
  is the character before the rest of the text (\<open>None\<close> at the start).
\<close>

fun re_split_from :: "char option \<Rightarrow> string \<Rightarrow> string list" where
  "re_split_from prev [] = [[]]"
| "re_split_from prev (x # xs) =
     (if x = CHR 0x0A \<or> (x = CHR '' '' \<and> prev = Some CHR ''.'')
      then [] # re_split_from (Some x) xs
      else (case re_split_from (Some x) xs of [] \<Rightarrow> [[x]] | w # ws \<Rightarrow> (x # w) # ws))"

definition re_split_sentences :: "string \<Rightarrow> string list" where
  "re_split_sentences s = re_split_from None s"

text \<open>\<^verbatim>\<open>s.startswith(p)\<close>\<close>

definition startswith :: "string \<Rightarrow> string \<Rightarrow> bool" where
  "startswith s p = (take (length p) s = p)"

section \<open>Chunking strategies (\<^verbatim>\<open>utils/_chunking.py\<close>)\<close>

subsection \<open>\<^verbatim>\<open>naive_sentence_chunking\<close>\<close>

text \<open>
  The inner loop of \<^verbatim>\<open>naive_sentence_chunking.start\<close> over the sentences of one content
  unit. \<open>chunked_text\<close> is the chunk being built. The result is the list of chunk texts
  flushed inside the loop, and the value of \<open>chunked_text\<close> when the loop ends.
  \<^verbatim>\<open>
  for sentence in sentences:
      tokens_in_sentence = sentence.split(" ")
      if len(chunked_text.split(" ")) + len(tokens_in_sentence) < self.chunk_size:
          chunked_text += sentence + " "
      else:
          template["content"] = {"text":chunked_text.strip()}
          chunked_text = sentence
          chunked_text_list.append(...)
  \<close>
\<close>

fun sentence_loop :: "int \<Rightarrow> string \<Rightarrow> string list \<Rightarrow> string list \<times> string" where
  "sentence_loop chunk_size chunked_text [] = ([], chunked_text)"
| "sentence_loop chunk_size chunked_text (sentence # rest) =
     (if int (length (split_space chunked_text)) + int (length (split_space sentence)) < chunk_size
      then sentence_loop chunk_size (chunked_text @ sentence @ '' '') rest
      else (case sentence_loop chunk_size sentence rest of
              (flushed, final) \<Rightarrow> (strip chunked_text # flushed, final)))"

text \<open>
  The chunk texts of one content unit: the chunks flushed in the loop, then the last
  chunk, flushed after the loop (lines 70-71).
\<close>

definition sentence_chunks :: "int \<Rightarrow> string \<Rightarrow> string list" where
  "sentence_chunks chunk_size txt =
     (case sentence_loop chunk_size [] (re_split_sentences txt) of
        (flushed, final) \<Rightarrow> flushed @ [strip final])"

text \<open>
  \<^verbatim>\<open>set_template()\<close> with the three document fields filled in (lines 41-44), and the
  template as it is serialised for one chunk of the content unit \<open>idx\<close>.
\<close>

definition chunk_record ::
  "'v pyval \<Rightarrow> 'v pyval \<Rightarrow> 'v pyval \<Rightarrow> string \<Rightarrow> string \<Rightarrow> 'v pyval" where
  "chunk_record title doc_type index_type idx chunk =
     PDict [(''document_title'', title), (''document_type'', doc_type),
            (''content_index'', PStr idx), (''content'', PDict [(''text'', PStr chunk)]),
            (''content_index_type'', index_type)]"

text \<open>
  The outer loop over \<^verbatim>\<open>retrieved_text["contents"].items()\<close>. A unit without a
  \<^verbatim>\<open>"text"\<close> key is skipped. \<open>dumps\<close> is \<^verbatim>\<open>json.dumps(_, ensure_ascii=False)\<close>.
  A unit that is not a dictionary, or whose text is not a string, raises TypeError.
\<close>

fun sentence_units ::
  "('v pyval \<Rightarrow> string) \<Rightarrow> int \<Rightarrow> 'v pyval \<Rightarrow> 'v pyval \<Rightarrow> 'v pyval \<Rightarrow>
     (string \<times> 'v pyval) list \<Rightarrow> exn + string list" where
  "sentence_units dumps chunk_size title doc_type index_type [] = Inr []"
| "sentence_units dumps chunk_size title doc_type index_type ((idx, content) # rest) =
     (case content of
        PDict kvs \<Rightarrow>
          (case map_of kvs ''text'' of
             None \<Rightarrow> sentence_units dumps chunk_size title doc_type index_type rest
           | Some (PStr txt) \<Rightarrow>
               (case sentence_units dumps chunk_size title doc_type index_type rest of
                  Inl e \<Rightarrow> Inl e
                | Inr more \<Rightarrow>
                    Inr (map (\<lambda>c. dumps (chunk_record title doc_type index_type idx c))
                           (sentence_chunks chunk_size txt) @ more))
           | Some _ \<Rightarrow> Inl TypeError)
      | _ \<Rightarrow> Inl TypeError)"

text \<open>\<^verbatim>\<open>naive_sentence_chunking.start(retrieved_text)\<close> with \<^verbatim>\<open>self.chunk_size\<close>.\<close>

definition naive_sentence_chunking_start ::
  "('v pyval \<Rightarrow> string) \<Rightarrow> int \<Rightarrow> 'v pyval \<Rightarrow> exn + string list" where
  "naive_sentence_chunking_start dumps chunk_size retrieved_text =
     and_then (getitem retrieved_text ''document_title'') (\<lambda>title.
     and_then (getitem retrieved_text ''document_type'') (\<lambda>doc_type.
     and_then (getitem retrieved_text ''contents_index_type'') (\<lambda>index_type.
     and_then (getitem retrieved_text ''contents'') (\<lambda>contents.
       (case contents of
          PDict units \<Rightarrow> sentence_units dumps chunk_size title doc_type index_type units
        | _ \<Rightarrow> Inl TypeError)))))"

subsection \<open>\<^verbatim>\<open>naive_word_chunking\<close>\<close>

text \<open>
  \<^verbatim>\<open>int(self.chunk_size * self.overlap)\<close> truncates towards zero. The overlap ratio
  is a rational number here; the rounding of the float product is not modelled.
\<close>

definition int_trunc :: "rat \<Rightarrow> int" where
  "int_trunc q = (if 0 \<le> q then \<lfloor>q\<rfloor> else \<lceil>q\<rceil>)"

text \<open>
  \<^verbatim>\<open>np.arange(0, n, step)\<close>: a zero step raises ZeroDivisionError, a negative step
  gives the empty array.
\<close>

definition np_arange :: "int \<Rightarrow> int \<Rightarrow> exn + int list" where
  "np_arange n step =
     (if step = 0 then Inl ZeroDivisionError
      else if step < 0 then Inr []
      else Inr (map (\<lambda>k. int k * step) [0 ..< nat ((n + step - 1) div step)]))"

text \<open>
  \<^verbatim>\<open>tokens[i:i + width]\<close> for \<open>0 \<le> i\<close>: a negative stop counts from the end, and both
  bounds are clipped to the array.
\<close>

definition slice_from :: "'a list \<Rightarrow> int \<Rightarrow> int \<Rightarrow> 'a list" where
  "slice_from xs i width =
     (let n = int (length xs);
          stop = i + width;
          stop' = (if stop < 0 then max 0 (stop + n) else min stop n)
      in take (nat (stop' - i)) (drop (nat i) xs))"

text \<open>
  Lines 96-99: the windows computed for one content string.
  \<^verbatim>\<open>
  tokens = np.array(content.split(" "))
  overlap = int(self.chunk_size * self.overlap)
  indices = np.arange(0, len(tokens), self.chunk_size - overlap)
  chunked_text = [" ".join(tokens[i:i + self.chunk_size]) for i in indices]
  \<close>
\<close>

definition word_windows :: "int \<Rightarrow> rat \<Rightarrow> string \<Rightarrow> exn + string list" where
  "word_windows chunk_size overlap_ratio content =
     (let tokens = split_space content;
          overlap = int_trunc (of_int chunk_size * overlap_ratio)
      in case np_arange (int (length tokens)) (chunk_size - overlap) of
           Inl e \<Rightarrow> Inl e
         | Inr indices \<Rightarrow> Inr (map (\<lambda>i. join_space (slice_from tokens i chunk_size)) indices))"

text \<open>
  The loop of \<^verbatim>\<open>naive_word_chunking.start\<close>. Each iteration binds the local
  \<^verbatim>\<open>chunked_text\<close> and nothing is added to \<^verbatim>\<open>chunked_texts\<close>, the list that is
  returned (lines 94-101).
\<close>

fun word_loop :: "int \<Rightarrow> rat \<Rightarrow> string list \<Rightarrow> string list \<Rightarrow> exn + string list" where
  "word_loop chunk_size overlap_ratio chunked_texts [] = Inr chunked_texts"
| "word_loop chunk_size overlap_ratio chunked_texts (content # rest) =
     (case word_windows chunk_size overlap_ratio content of
        Inl e \<Rightarrow> Inl e
      | Inr chunked_text \<Rightarrow> word_loop chunk_size overlap_ratio chunked_texts rest)"

definition naive_word_chunking_start :: "int \<Rightarrow> rat \<Rightarrow> string list \<Rightarrow> exn + string list" where
  "naive_word_chunking_start chunk_size overlap_ratio retrieved_text =
     word_loop chunk_size overlap_ratio [] retrieved_text"

section \<open>Configuration (\<^verbatim>\<open>config.py\<close>)\<close>


definition batch_size_base :: nat where
  "batch_size_base = 8"

record model_info =
  dimension :: nat
  sequence_length :: int
  recommended_batch_size :: nat
  original_model :: string

text \<open>\<^verbatim>\<open>cfg.embedding_models_info\<close>: both entries carry all four keys.\<close>

definition embedding_models_info :: "(string \<times> model_info) list" where
  "embedding_models_info =
     [(''embedding/BAAI/bge-m3'',
         \<lparr>dimension = 1024, sequence_length = 8192, recommended_batch_size = 12,
          original_model = ''BAAI/bge-m3''\<rparr>),
      (''text-embedding-ada-002'',
         \<lparr>dimension = 1024, sequence_length = 8192, recommended_batch_size = 12,
          original_model = ''BAAI/bge-m3''\<rparr>)]"

text \<open>
  \<^verbatim>\<open>cfg.embedding_models_info[model]\<close> and \<^verbatim>\<open>model in cfg.embedding_models_info\<close>
  for a model name taken from the job settings: a list or a dictionary is unhashable
  (TypeError), any other value that is not one of the two names is a missing key.
\<close>

fun models_info_lookup :: "'v pyval \<Rightarrow> exn + model_info option" where
  "models_info_lookup (PStr name) = Inr (map_of embedding_models_info name)"
| "models_info_lookup (PList xs) = Inl TypeError"
| "models_info_lookup (PDict kvs) = Inl TypeError"
| "models_info_lookup _ = Inr None"

section \<open>The outside world and the collaborators\<close>

text \<open>
  The requests sent to the document store through the synchronous client:
  \<^verbatim>\<open>client_sync.index(index=, document=)\<close>, \<^verbatim>\<open>client_sync.get(index=, id=, _source=)\<close>
  and \<^verbatim>\<open>client_sync.update(index=, id=, body={"doc": fields})\<close>.
\<close>

datatype 'v es_call =
    Index "'v pyval" "'v pyval"
  | Get "'v pyval" "'v pyval" "string list"
  | Update "'v pyval" "'v pyval" "'v pyval"

text \<open>
  Log records: \<^verbatim>\<open>logger.info(msg)\<close> and \<^verbatim>\<open>logger.exception(msg)\<close>. The string is
  the fixed head of the message; the exception is the one formatted into it.
\<close>

datatype log_entry = LogInfo string | LogException string exn

text \<open>
  The world outside the process is a value of an abstract type \<open>'w\<close>. \<open>es_calls\<close> and
  \<open>logs\<close> are history variables: every request sent to the document store and every
  log record written, oldest first.
\<close>

record ('v, 'w) world =
  es_calls :: "'v es_call list"
  logs :: "log_entry list"
  outside :: 'w

text \<open>
  The collaborators, none of them under this repository's control: each takes the
  outside world, returns its answer or the exception it raises, and the world after the
  call. \<open>es_index\<close> returns the response of \<^verbatim>\<open>client_sync.index\<close>, \<open>es_get\<close> the
  response of \<^verbatim>\<open>client_sync.get\<close>. \<open>embeddings_create\<close> is
  \<^verbatim>\<open>_fastchat_openai_api.embedding\<close> (one call of the provider, the vectors in the order
  the provider returns them). \<open>text_extraction\<close> is \<^verbatim>\<open>naive_text_extraction.start\<close>
  (pdfplumber, python-docx, python-pptx); \<open>semantic_chunking\<close> is
  \<^verbatim>\<open>semantic_chunking.set_instance_variable\<close> followed by \<^verbatim>\<open>semantic_chunking.start\<close>
  (semantic_router). \<open>now_iso\<close> is \<^verbatim>\<open>datetime.now().isoformat()\<close>; \<open>json_dumps\<close> and
  \<open>json_loads\<close> are \<^verbatim>\<open>transform_dict_n_str\<close>; \<open>np_mean\<close> is \<^verbatim>\<open>np.mean(_, axis=0)\<close>;
  \<open>py_str\<close> is \<^verbatim>\<open>str\<close> on a value that is not a string.
\<close>

record ('v, 'w) env =
  es_index :: "'v pyval \<Rightarrow> 'v pyval \<Rightarrow> 'w \<Rightarrow> (exn + 'v pyval) \<times> 'w"
  es_get :: "'v pyval \<Rightarrow> 'v pyval \<Rightarrow> string list \<Rightarrow> 'w \<Rightarrow> (exn + 'v pyval) \<times> 'w"
  es_update :: "'v pyval \<Rightarrow> 'v pyval \<Rightarrow> 'v pyval \<Rightarrow> 'w \<Rightarrow> (exn + unit) \<times> 'w"
  embeddings_create :: "'v pyval \<Rightarrow> 'v pyval list \<Rightarrow> 'w \<Rightarrow> (exn + 'v list) \<times> 'w"
  text_extraction :: "string option \<Rightarrow> 'v pyval \<Rightarrow> 'v pyval \<Rightarrow> 'w \<Rightarrow> (exn + 'v pyval) \<times> 'w"
  semantic_chunking :: "'v pyval \<Rightarrow> 'v pyval \<Rightarrow> 'w \<Rightarrow> (exn + string list) \<times> 'w"
  now_iso :: "'w \<Rightarrow> string"
  json_dumps :: "'v pyval \<Rightarrow> string"
  json_loads :: "string \<Rightarrow> exn + 'v pyval"
  np_mean :: "'v pyval list \<Rightarrow> 'v pyval"
  py_str :: "'v pyval \<Rightarrow> string"

definition log_info :: "string \<Rightarrow> ('v, 'w) world \<Rightarrow> ('v, 'w) world" where
  "log_info msg w = w\<lparr>logs := logs w @ [LogInfo msg]\<rparr>"

definition log_exception :: "string \<Rightarrow> exn \<Rightarrow> ('v, 'w) world \<Rightarrow> ('v, 'w) world" where
  "log_exception msg e w = w\<lparr>logs := logs w @ [LogException msg e]\<rparr>"

definition call_index ::
  "('v, 'w) env \<Rightarrow> 'v pyval \<Rightarrow> 'v pyval \<Rightarrow> ('v, 'w) world \<Rightarrow> (exn + 'v pyval) \<times> ('v, 'w) world" where
  "call_index E name doc w =
     (case es_index E name doc (outside w) of
        (r, x) \<Rightarrow> (r, w\<lparr>es_calls := es_calls w @ [Index name doc], outside := x\<rparr>))"

definition call_get ::
  "('v, 'w) env \<Rightarrow> 'v pyval \<Rightarrow> 'v pyval \<Rightarrow> string list \<Rightarrow> ('v, 'w) world \<Rightarrow>
     (exn + 'v pyval) \<times> ('v, 'w) world" where
  "call_get E name ident field_names w =
     (case es_get E name ident field_names (outside w) of
        (r, x) \<Rightarrow> (r, w\<lparr>es_calls := es_calls w @ [Get name ident field_names], outside := x\<rparr>))"

definition call_update ::
  "('v, 'w) env \<Rightarrow> 'v pyval \<Rightarrow> 'v pyval \<Rightarrow> 'v pyval \<Rightarrow> ('v, 'w) world \<Rightarrow>
     (exn + unit) \<times> ('v, 'w) world" where
  "call_update E name ident doc w =
     (case es_update E name ident doc (outside w) of
        (r, x) \<Rightarrow> (r, w\<lparr>es_calls := es_calls w @ [Update name ident doc], outside := x\<rparr>))"

definition call_embedding ::
  "('v, 'w) env \<Rightarrow> 'v pyval \<Rightarrow> 'v pyval list \<Rightarrow> ('v, 'w) world \<Rightarrow>
     (exn + 'v list) \<times> ('v, 'w) world" where
  "call_embedding E model_name text_list w =
     (case embeddings_create E model_name text_list (outside w) of
        (r, x) \<Rightarrow> (r, w\<lparr>outside := x\<rparr>))"

text \<open>An f-string field \<^verbatim>\<open>{v}\<close>.\<close>

definition fmt :: "('v, 'w) env \<Rightarrow> 'v pyval \<Rightarrow> string" where
  "fmt E v = (case v of PStr s \<Rightarrow> s | _ \<Rightarrow> py_str E v)"

section \<open>Document store wrapper (\<^verbatim>\<open>utils/_elastic_search.py\<close>)\<close>

text \<open>
  \<^verbatim>\<open>post_add_data\<close>: one \<^verbatim>\<open>index\<close> request; a failure is logged and raised again.
  The value returned is the \<^verbatim>\<open>"response"\<close> entry of the result.
\<close>

definition post_add_data ::
  "('v, 'w) env \<Rightarrow> 'v pyval \<Rightarrow> 'v pyval \<Rightarrow> ('v, 'w) world \<Rightarrow> (exn + 'v pyval) \<times> ('v, 'w) world" where
  "post_add_data E index_name properties w =
     (case call_index E index_name properties w of
        (Inl e, w1) \<Rightarrow> (Inl e, log_exception ''Error in post_add_data'' e w1)
      | (Inr response, w1) \<Rightarrow> (Inr response, w1))"

text \<open>\<^verbatim>\<open>fields["number_of_data"] += 1\<close> (floats are not modelled).\<close>

fun py_add_one :: "'v pyval \<Rightarrow> exn + 'v pyval" where
  "py_add_one (PInt n) = Inr (PInt (n + 1))"
| "py_add_one (PBool b) = Inr (PInt ((if b then 1 else 0) + 1))"
| "py_add_one _ = Inl TypeError"

text \<open>\<^verbatim>\<open>xs.append(x)\<close>\<close>

fun py_append :: "'v pyval \<Rightarrow> 'v pyval \<Rightarrow> exn + 'v pyval" where
  "py_append (PList xs) x = Inr (PList (xs @ [x]))"
| "py_append _ x = Inl AttributeError"

text \<open>
  The middle of \<^verbatim>\<open>post_modify_data\<close> (lines 126-136): the change made to the fields
  that were read, at the time \<open>now\<close>.
\<close>

definition modify_fields ::
  "('v, 'w) env \<Rightarrow> string \<Rightarrow> string \<Rightarrow> 'v pyval \<Rightarrow> 'v pyval \<Rightarrow> 'v pyval \<Rightarrow> 'v pyval \<Rightarrow>
     'v pyval \<Rightarrow> exn + 'v pyval" where
  "modify_fields E now modify_index_type flds data_added_index_type data_added_index_name
       data_added_index_id data_added_data_id =
     (if modify_index_type = ''metadata'' then
        and_then (setitem flds ''latest_update'' (PStr now)) (\<lambda>f1.
        and_then (getitem f1 ''number_of_data'') (\<lambda>n.
        and_then (py_add_one n) (\<lambda>n'. setitem f1 ''number_of_data'' n')))
      else if modify_index_type = ''full_text'' then
        (let ty = fmt E data_added_index_type;
             key = ''child_'' @ ty @ ''_indexes''
         in and_then (getitem flds key) (\<lambda>children.
            and_then (py_append children
                  (PDict [(''index_name_'' @ ty, data_added_index_name),
                          (''index_id_'' @ ty, data_added_index_id),
                          (''data_id_'' @ ty, data_added_data_id)])) (\<lambda>children'.
            setitem flds key children')))
      else Inr flds)"

text \<open>
  \<^verbatim>\<open>post_modify_data\<close>: read the fields of the record, change them, write them back.
\<close>

definition post_modify_data ::
  "('v, 'w) env \<Rightarrow> string \<Rightarrow> 'v pyval \<Rightarrow> 'v pyval \<Rightarrow> string list \<Rightarrow> 'v pyval \<Rightarrow> 'v pyval \<Rightarrow>
     'v pyval \<Rightarrow> 'v pyval \<Rightarrow> ('v, 'w) world \<Rightarrow> exn option \<times> ('v, 'w) world" where
  "post_modify_data E modify_index_type modify_index_name target_data_id field_names
       data_added_index_type data_added_index_name data_added_index_id data_added_data_id w =
     (case call_get E modify_index_name target_data_id field_names w of
        (Inl e, w1) \<Rightarrow> (Some e, w1)
      | (Inr response, w1) \<Rightarrow>
          (case and_then (getitem response ''_source'') (\<lambda>source.
                  modify_fields E (now_iso E (outside w1)) modify_index_type source
                    data_added_index_type data_added_index_name data_added_index_id
                    data_added_data_id) of
             Inl e \<Rightarrow> (Some e, w1)
           | Inr flds' \<Rightarrow>
               (case call_update E modify_index_name target_data_id flds' w1 of
                  (Inl e, w2) \<Rightarrow> (Some e, w2)
                | (Inr _, w2) \<Rightarrow> (None, w2))))"

section \<open>Pipeline executor (\<^verbatim>\<open>utils/_execute_job.py\<close>)\<close>

text \<open>
  The mutable fields of class \<^verbatim>\<open>execute\<close>. \<open>step_trace\<close> is a history variable: every
  value assigned to \<^verbatim>\<open>current_step\<close>, oldest first, starting with the value given by
  \<^verbatim>\<open>__init__\<close>.
\<close>

record 'v executor =
  info :: "'v pyval"
  "output" :: "'v pyval"
  current_step :: string
  step_trace :: "string list"

text \<open>\<^verbatim>\<open>execute.__init__\<close>\<close>

definition init_executor :: "'v executor" where
  "init_executor = \<lparr>info = PNone, output = PNone, current_step = ''idle'', step_trace = [''idle'']\<rparr>"

text \<open>\<^verbatim>\<open>self.current_step = x\<close>\<close>

definition set_step :: "string \<Rightarrow> 'v executor \<Rightarrow> 'v executor" where
  "set_step x s = s\<lparr>current_step := x, step_trace := step_trace s @ [x]\<rparr>"

text \<open>
  A stage takes the executor and the world and returns the exception it raised, if any,
  with the executor and the world as they are at that moment: what a stage has assigned
  before it raises stays assigned.
\<close>

type_synonym ('v, 'w) stage =
  "'v executor \<times> ('v, 'w) world \<Rightarrow> exn option \<times> 'v executor \<times> ('v, 'w) world"

definition then_stage :: "('v, 'w) stage \<Rightarrow> ('v, 'w) stage \<Rightarrow> ('v, 'w) stage" where
  "then_stage f g sw = (case f sw of (Some e, s1, w1) \<Rightarrow> (Some e, s1, w1) | (None, s1, w1) \<Rightarrow> g (s1, w1))"

text \<open>\<^verbatim>\<open>self.info["properties"][k]\<close> and \<^verbatim>\<open>self.info["properties"][k] = v\<close>\<close>

definition get_property :: "'v pyval \<Rightarrow> string \<Rightarrow> exn + 'v pyval" where
  "get_property job_info k = and_then (getitem job_info ''properties'') (\<lambda>props. getitem props k)"

definition set_property :: "'v pyval \<Rightarrow> string \<Rightarrow> 'v pyval \<Rightarrow> exn + 'v pyval" where
  "set_property job_info k v =
     and_then (getitem job_info ''properties'') (\<lambda>props.
     and_then (setitem props k v) (\<lambda>props'. setitem job_info ''properties'' props'))"

text \<open>\<^verbatim>\<open>execute.modify_data\<close> (the three \<^verbatim>\<open>data_added_*\<close> arguments are not used).\<close>

definition modify_data :: "('v, 'w) env \<Rightarrow> string \<Rightarrow> ('v, 'w) stage" where
  "modify_data E modify_index_name sw =
     (case sw of (s, w) \<Rightarrow>
        (let s1 = set_step ''modify_data'' s in
         if startswith modify_index_name ''metadata'' then
           (case getitem (info s1) ''metadata_index_modify_id'' of
              Inl e \<Rightarrow> (Some e, s1, w)
            | Inr target_data_id \<Rightarrow>
                (case post_modify_data E ''metadata'' (PStr modify_index_name) target_data_id
                        [''latest_update'', ''number_of_data''] PNone PNone PNone PNone w of
                   (r, w1) \<Rightarrow> (r, s1, w1)))
         else (None, s1, w)))"

text \<open>\<^verbatim>\<open>execute.extract_text\<close>\<close>

definition extract_text :: "('v, 'w) env \<Rightarrow> string option \<Rightarrow> ('v, 'w) stage" where
  "extract_text E text_file sw =
     (case sw of (s, w) \<Rightarrow>
        (let s1 = set_step ''extract_text'' s in
         case get_property (info s1) ''title'' of
           Inl e \<Rightarrow> (Some e, s1, w)
         | Inr doc_title \<Rightarrow>
             (case get_property (info s1) ''source_type'' of
                Inl e \<Rightarrow> (Some e, s1, w)
              | Inr doc_type \<Rightarrow>
                  (case text_extraction E text_file doc_title doc_type (outside w) of
                     (Inl e, x) \<Rightarrow> (Some e, s1, w\<lparr>outside := x\<rparr>)
                   | (Inr extracted, x) \<Rightarrow>
                       (None, s1\<lparr>output := PStr (json_dumps E extracted)\<rparr>, w\<lparr>outside := x\<rparr>)))))"

text \<open>\<^verbatim>\<open>execute.modify_properties\<close>\<close>

definition modify_properties :: "('v, 'w) env \<Rightarrow> ('v, 'w) stage" where
  "modify_properties E sw =
     (case sw of (s, w) \<Rightarrow>
        (let s1 = set_step ''modify_properties'' s in
         case set_property (info s1) ''added_date'' (PStr (now_iso E (outside w))) of
           Inl e \<Rightarrow> (Some e, s1, w)
         | Inr info1 \<Rightarrow>
             (let s2 = s1\<lparr>info := info1\<rparr> in
              case getitem info1 ''target_index_type'' of
                Inl e \<Rightarrow> (Some e, s2, w)
              | Inr ty \<Rightarrow>
                  if ty = PStr ''full_text'' then
                    (case getitem info1 ''index_name_full_text'' of
                       Inl e \<Rightarrow> (Some e, s2, w)
                     | Inr target_index \<Rightarrow> (None, s2, w))
                  else if ty = PStr ''full_vector'' then
                    (case getitem info1 ''index_name_full_vector'' of
                       Inl e \<Rightarrow> (Some e, s2, w)
                     | Inr target_index \<Rightarrow>
                         (case set_property info1 ''vector'' (output s2) of
                            Inl e \<Rightarrow> (Some e, s2, w)
                          | Inr info2 \<Rightarrow> (None, s2\<lparr>info := info2\<rparr>, w)))
                  else if ty = PStr ''chunked_pairs'' then
                    (case getitem info1 ''index_name_chunked_pairs'' of
                       Inl e \<Rightarrow> (Some e, s2, w)
                     | Inr target_index \<Rightarrow>
                         (case set_property info1 ''chunked_text_vector_pairs'' (output s2) of
                            Inl e \<Rightarrow> (Some e, s2, w)
                          | Inr info2 \<Rightarrow> (None, s2\<lparr>info := info2\<rparr>, w)))
                  else (None, s2, w))))"

text \<open>
  One branch of the first half of \<^verbatim>\<open>add_to_es\<close> (lines 97-109): the stage output is
  stored under \<open>prop_key\<close>, the properties are written to the index named by the
  setting \<open>index_key\<close>, and, in the \<^verbatim>\<open>full_vector\<close> and \<^verbatim>\<open>chunked_pairs\<close> branches
  (\<open>keep_id\<close>), the \<^verbatim>\<open>_id\<close> of the response is stored in the properties.
\<close>

definition write_target :: "('v, 'w) env \<Rightarrow> string \<Rightarrow> string \<Rightarrow> bool \<Rightarrow> ('v, 'w) stage" where
  "write_target E prop_key index_key keep_id sw =
     (case sw of (s, w) \<Rightarrow>
        (case set_property (info s) prop_key (output s) of
           Inl e \<Rightarrow> (Some e, s, w)
         | Inr info1 \<Rightarrow>
             (let s1 = s\<lparr>info := info1\<rparr> in
              case getitem info1 index_key of
                Inl e \<Rightarrow> (Some e, s1, w)
              | Inr index_name \<Rightarrow>
                  (case getitem info1 ''properties'' of
                     Inl e \<Rightarrow> (Some e, s1, w)
                   | Inr properties \<Rightarrow>
                       (case post_add_data E index_name properties w of
                          (Inl e, w1) \<Rightarrow> (Some e, s1, w1)
                        | (Inr response, w1) \<Rightarrow>
                            if keep_id then
                              (case and_then (getitem response ''_id'') (set_property info1 ''id'') of
                                 Inl e \<Rightarrow> (Some e, s1, w1)
                               | Inr info2 \<Rightarrow> (None, s1\<lparr>info := info2\<rparr>, w1))
                            else (None, s1, w1))))))"

text \<open>
  The second half of \<^verbatim>\<open>add_to_es\<close> (lines 112-115). The two arguments of
  \<^verbatim>\<open>modify_data\<close> are evaluated inside the \<^verbatim>\<open>try\<close>, before the call.
\<close>

definition update_metadata :: "('v, 'w) env \<Rightarrow> ('v, 'w) stage" where
  "update_metadata E sw =
     (case sw of (s, w) \<Rightarrow>
        (case (case getitem (info s) ''target_index_type'' of
                 Inl e \<Rightarrow> (Some e, s, w)
               | Inr ty \<Rightarrow>
                   (case getitem (info s) ''index_name_full_vector'' of
                      Inl e \<Rightarrow> (Some e, s, w)
                    | Inr data_added_index_name \<Rightarrow> modify_data E (''metadata_'' @ fmt E ty) (s, w))) of
           (Some e, s1, w1) \<Rightarrow> (None, s1, log_exception ''Error in add_to_es() in metadata'' e w1)
         | (None, s1, w1) \<Rightarrow> (None, s1, w1)))"

text \<open>\<^verbatim>\<open>execute.add_to_es\<close>\<close>

definition add_to_es :: "('v, 'w) env \<Rightarrow> ('v, 'w) stage" where
  "add_to_es E sw =
     (case sw of (s, w) \<Rightarrow>
        (let s1 = set_step ''add_to_es'' s in
         case getitem (info s1) ''target_index_type'' of
           Inl e \<Rightarrow> (Some e, s1, w)
         | Inr ty \<Rightarrow>
             then_stage
               (if ty = PStr ''full_text'' then
                  write_target E ''text'' ''index_name_full_text'' False
                else if ty = PStr ''full_vector'' then
                  write_target E ''vector'' ''index_name_full_vector'' True
                else if ty = PStr ''chunked_pairs'' then
                  write_target E ''chunked_text_vector_pairs'' ''index_name_chunked_pairs'' True
                else (\<lambda>(s2, w2). (None, s2, w2)))
               (update_metadata E) (s1, w)))"

text \<open>
  \<^verbatim>\<open>execute.retrieve_text\<close>, with \<^verbatim>\<open>_ElasticSearch.get_data_match_id\<close> inlined.
  \<^verbatim>\<open>json.loads\<close> of a value that is not a string raises TypeError.
\<close>

definition retrieve_text :: "('v, 'w) env \<Rightarrow> ('v, 'w) stage" where
  "retrieve_text E sw =
     (case sw of (s, w) \<Rightarrow>
        (let s1 = set_step ''retrieve_text'' s in
         case get_property (info s1) ''original_full_text_index_name'' of
           Inl e \<Rightarrow> (Some e, s1, w)
         | Inr index_name \<Rightarrow>
             (case get_property (info s1) ''original_full_text_data_id'' of
                Inl e \<Rightarrow> (Some e, s1, w)
              | Inr ident \<Rightarrow>
                  (case call_get E index_name ident [''text''] w of
                     (Inl e, w1) \<Rightarrow> (Some e, s1, w1)
                   | (Inr response, w1) \<Rightarrow>
                       (case and_then (getitem response ''_source'') (\<lambda>res. getitem res ''text'') of
                          Inl e \<Rightarrow> (Some e, s1, w1)
                        | Inr txt \<Rightarrow>
                            (let s2 = s1\<lparr>output := txt\<rparr> in
                             case (case txt of PStr t \<Rightarrow> json_loads E t | _ \<Rightarrow> Inl TypeError) of
                               Inl e \<Rightarrow> (Some e, s2, w1)
                             | Inr doc \<Rightarrow> (None, s2\<lparr>output := doc\<rparr>, w1)))))))"

text \<open>
  Lines 160-163 of \<^verbatim>\<open>embed_text\<close>: the batch size of the model, \<^verbatim>\<open>cfg.batch_size_base\<close>
  for a model that the registry does not know.
\<close>

definition resolve_batch_size :: "'v pyval \<Rightarrow> exn + nat" where
  "resolve_batch_size embedding_model =
     and_then (models_info_lookup embedding_model) (\<lambda>m.
       Inr (case m of None \<Rightarrow> batch_size_base | Some mi \<Rightarrow> recommended_batch_size mi))"

text \<open>What one batch adds to \<^verbatim>\<open>output\<close> (lines 171-178); \<^verbatim>\<open>zip\<close> stops at the shorter list.\<close>

definition batch_output :: "'v pyval \<Rightarrow> 'v pyval list \<Rightarrow> 'v list \<Rightarrow> 'v pyval list" where
  "batch_output ty batch_text batch_vector =
     (if ty = PStr ''full_vector'' then map PVec batch_vector
      else if ty = PStr ''chunked_pairs'' then
        map (\<lambda>(t, v). PDict [(''text'', t), (''vector'', PVec v)]) (zip batch_text batch_vector)
      else [])"

text \<open>
  The batching loop of \<^verbatim>\<open>embed_text\<close> (lines 166-179). \<open>texts\<close> is the part of
  \<^verbatim>\<open>self.output\<close> from index \<open>i\<close> on, \<open>out\<close> the local list \<^verbatim>\<open>output\<close>.
  \<^verbatim>\<open>range\<close> with a zero step raises ValueError. The half-second pause between two
  batches is not modelled.
\<close>

function embed_batches ::
  "('v, 'w) env \<Rightarrow> 'v pyval \<Rightarrow> 'v pyval \<Rightarrow> nat \<Rightarrow> 'v pyval list \<Rightarrow> 'v pyval list \<Rightarrow>
     ('v, 'w) world \<Rightarrow> (exn + 'v pyval list) \<times> ('v, 'w) world" where
  "embed_batches E job_info embedding_model batch_size texts out w =
     (if batch_size = 0 then (Inl ValueError, w)
      else if texts = [] then (Inr out, w)
      else (case call_embedding E embedding_model (take batch_size texts) w of
              (Inl e, w1) \<Rightarrow> (Inl e, w1)
            | (Inr batch_vector, w1) \<Rightarrow>
                (case getitem job_info ''target_index_type'' of
                   Inl e \<Rightarrow> (Inl e, w1)
                 | Inr ty \<Rightarrow>
                     embed_batches E job_info embedding_model batch_size (drop batch_size texts)
                       (out @ batch_output ty (take batch_size texts) batch_vector) w1)))"
  by pat_completeness auto
termination
  by (relation "measure (\<lambda>(E, job_info, embedding_model, batch_size, texts, out, w). length texts)") auto

declare embed_batches.simps [simp del]

text \<open>
  \<^verbatim>\<open>execute.embed_text\<close> with the batch size as an argument. The chunkers hand over a
  list; any other shape of \<^verbatim>\<open>self.output\<close> is answered with TypeError.
\<close>

definition embed_text_with :: "('v, 'w) env \<Rightarrow> nat \<Rightarrow> ('v, 'w) stage" where
  "embed_text_with E batch_size sw =
     (case sw of (s, w) \<Rightarrow>
        (case output s of
           PList texts \<Rightarrow>
             (case getitem (info s) ''embedding_model'' of
                Inl e \<Rightarrow> (Some e, s, w)
              | Inr embedding_model \<Rightarrow>
                  (case embed_batches E (info s) embedding_model batch_size texts [] w of
                     (Inl e, w1) \<Rightarrow> (Some e, s, w1)
                   | (Inr out, w1) \<Rightarrow>
                       (case getitem (info s) ''target_index_type'' of
                          Inl e \<Rightarrow> (Some e, s, w1)
                        | Inr ty \<Rightarrow>
                            if ty = PStr ''full_vector''
                            then (None, s\<lparr>output := np_mean E out\<rparr>, w1)
                            else (None, s\<lparr>output := PList out\<rparr>, w1))))
         | _ \<Rightarrow> (Some TypeError, s, w)))"

text \<open>\<^verbatim>\<open>execute.embed_text\<close>\<close>

definition embed_text :: "('v, 'w) env \<Rightarrow> ('v, 'w) stage" where
  "embed_text E sw =
     (case sw of (s, w) \<Rightarrow>
        (let s1 = set_step ''embed_text'' s in
         case and_then (getitem (info s1) ''embedding_model'') resolve_batch_size of
           Inl e \<Rightarrow> (Some e, s1, w)
         | Inr batch_size \<Rightarrow> embed_text_with E batch_size (s1, w)))"

text \<open>
  \<^verbatim>\<open>execute.chunk_text\<close>. The sentence chunker gets \<^verbatim>\<open>sequence_length // 4\<close> as its
  chunk size; its \<^verbatim>\<open>overlap\<close> attribute is set and never read.
\<close>

definition chunk_text :: "('v, 'w) env \<Rightarrow> ('v, 'w) stage" where
  "chunk_text E sw =
     (case sw of (s, w) \<Rightarrow>
        (let s1 = set_step ''chunk_text'' s in
         case getitem (info s1) ''target_index_type'' of
           Inl e \<Rightarrow> (Some e, s1, w)
         | Inr ty \<Rightarrow>
             if ty = PStr ''full_vector'' then
               (case and_then (getitem (info s1) ''embedding_model'') (\<lambda>m.
                     and_then (models_info_lookup m) (\<lambda>found.
                       case found of
                         None \<Rightarrow> Inl (KeyError (fmt E m))
                       | Some mi \<Rightarrow>
                           naive_sentence_chunking_start (json_dumps E)
                             (sequence_length mi div 4) (output s1))) of
                  Inl e \<Rightarrow> (Some e, s1, w)
                | Inr chunks \<Rightarrow> (None, s1\<lparr>output := PList (map PStr chunks)\<rparr>, w))
             else if ty = PStr ''chunked_pairs'' then
               (case semantic_chunking E (info s1) (output s1) (outside w) of
                  (Inl e, x) \<Rightarrow> (Some e, s1, w\<lparr>outside := x\<rparr>)
                | (Inr chunks, x) \<Rightarrow>
                    (None, s1\<lparr>output := PList (map PStr chunks)\<rparr>, w\<lparr>outside := x\<rparr>))
             else (None, s1, w)))"

text \<open>The three pipelines: \<^verbatim>\<open>add_full_text\<close>, \<^verbatim>\<open>add_full_vector\<close>, \<^verbatim>\<open>add_chunked_pairs\<close>.\<close>

definition add_full_text :: "('v, 'w) env \<Rightarrow> string option \<Rightarrow> ('v, 'w) stage" where
  "add_full_text E text_file =
     then_stage (extract_text E text_file) (then_stage (modify_properties E) (add_to_es E))"

definition add_full_vector :: "('v, 'w) env \<Rightarrow> ('v, 'w) stage" where
  "add_full_vector E =
     then_stage (retrieve_text E) (then_stage (chunk_text E) (then_stage (embed_text E)
       (then_stage (modify_properties E) (add_to_es E))))"

definition add_chunked_pairs :: "('v, 'w) env \<Rightarrow> ('v, 'w) stage" where
  "add_chunked_pairs E =
     then_stage (retrieve_text E) (then_stage (chunk_text E) (then_stage (embed_text E)
       (then_stage (modify_properties E) (add_to_es E))))"

text \<open>The pipeline that \<^verbatim>\<open>start\<close> selects for a job type; none for any other value.\<close>

definition dispatch :: "('v, 'w) env \<Rightarrow> 'v pyval \<Rightarrow> string option \<Rightarrow> ('v, 'w) stage" where
  "dispatch E job_type text_file =
     (if job_type = PStr ''full_text'' then add_full_text E text_file
      else if job_type = PStr ''full_vector'' then add_full_vector E
      else if job_type = PStr ''chunked_pairs'' then add_chunked_pairs E
      else (\<lambda>(s, w). (None, s, w)))"

text \<open>
  \<^verbatim>\<open>execute.start\<close>. An exception of the pipeline leaves \<^verbatim>\<open>start\<close> at once (there is
  no \<^verbatim>\<open>try\<close> in it); the three assignments under \<^verbatim>\<open># reset\<close> and \<^verbatim>\<open>return True\<close>
  follow a pipeline that returned.
\<close>

definition start ::
  "('v, 'w) env \<Rightarrow> 'v pyval \<Rightarrow> 'v pyval \<Rightarrow> string option \<Rightarrow> 'v executor \<times> ('v, 'w) world \<Rightarrow>
     (exn + bool) \<times> 'v executor \<times> ('v, 'w) world" where
  "start E job_info job_type text_file sw =
     (case sw of (s, w) \<Rightarrow>
        (case dispatch E job_type text_file (s\<lparr>info := job_info\<rparr>, w) of
           (Some e, s1, w1) \<Rightarrow> (Inl e, s1, w1)
         | (None, s1, w1) \<Rightarrow>
             (Inr True, set_step ''idle'' (s1\<lparr>info := PNone, output := PNone\<rparr>), w1)))"

section \<open>Job queue and worker (\<^verbatim>\<open>utils/_job_management.py\<close>, \<^verbatim>\<open>main.py\<close>)\<close>

text \<open>
  A job is the dictionary built by \<^verbatim>\<open>add_jobs\<close>: the parsed settings and the bytes
  of the uploaded file, if there is one.
\<close>

record 'v job =
  settings :: "'v pyval"
  text_file :: "string option"

text \<open>
  What \<^verbatim>\<open>start_job\<close> returns: the value of \<^verbatim>\<open>execute.start\<close>, or the dictionary
  \<^verbatim>\<open>{"status": False, "message": str(e)}\<close> for the exception \<open>e\<close>.
\<close>

datatype job_result = Returned bool | Failed exn

text \<open>
  The fields of \<^verbatim>\<open>_JobManagement\<close>. \<^verbatim>\<open>current_job = {}\<close> is \<open>None\<close>. The queue is
  a \<^verbatim>\<open>deque(maxlen=cfg.max_queue_length)\<close>, oldest job first.
\<close>

record 'v manager =
  queue :: "'v job list"
  status :: string
  current_job :: "'v job option"
  jobs_history :: "(string \<times> 'v job list) list"
  execute :: "'v executor"

text \<open>\<^verbatim>\<open>_JobManagement.__init__\<close>\<close>

definition init_manager :: "'v manager" where
  "init_manager =
     \<lparr>queue = [], status = ''idle'', current_job = None,
      jobs_history = [(''success'', []), (''failed'', [])], execute = init_executor\<rparr>"



text \<open>
  The loop of \<^verbatim>\<open>add_jobs\<close> (lines 242-249) over the pairs of a settings string and
  an uploaded file; \<^verbatim>\<open>json.loads\<close> may raise.
\<close>

fun build_jobs :: "('v, 'w) env \<Rightarrow> (string \<times> string option) list \<Rightarrow> exn + 'v job list" where
  "build_jobs E [] = Inr []"
| "build_jobs E ((setting, file) # rest) =
     and_then (json_loads E setting) (\<lambda>parsed.
     and_then (build_jobs E rest) (\<lambda>jobs. Inr (\<lparr>settings = parsed, text_file = file\<rparr> # jobs)))"



text \<open>
  The first \<^verbatim>\<open>try\<close> block of \<^verbatim>\<open>start_job\<close> (lines 86-97): the local variables
  \<^verbatim>\<open>info\<close>, \<^verbatim>\<open>text_file\<close>, \<^verbatim>\<open>target_index_type\<close> and \<^verbatim>\<open>_title\<close>, each \<open>None\<close> while
  it is unbound, and the exception that ended the block, if any.
\<close>

record 'v job_locals =
  local_info :: "'v pyval option"
  local_text_file :: "string option option"
  local_target_index_type :: "'v pyval option"
  local_title :: "'v pyval option"

definition read_job :: "'v job option \<Rightarrow> 'v job_locals \<times> exn option" where
  "read_job cur =
     (case cur of
        None \<Rightarrow>
          (\<lparr>local_info = None, local_text_file = None, local_target_index_type = None,
            local_title = None\<rparr>, Some (KeyError ''settings''))
      | Some job \<Rightarrow>
          (let l = \<lparr>local_info = Some (settings job), local_text_file = Some (text_file job),
                    local_target_index_type = None, local_title = None\<rparr> in
           case getitem (settings job) ''target_index_type'' of
             Inl e \<Rightarrow> (l, Some e)
           | Inr ty \<Rightarrow>
               (case get_property (settings job)
                       (if ty = PStr ''full_text'' then ''title''
                        else ''original_full_text_data_title'') of
                  Inl e \<Rightarrow> (l\<lparr>local_target_index_type := Some ty\<rparr>, Some e)
                | Inr title \<Rightarrow>
                    (l\<lparr>local_target_index_type := Some ty, local_title := Some title\<rparr>, None))))"

text \<open>
  \<^verbatim>\<open>_JobManagement.start_job\<close>: returns the result, the executor and the world after
  the job. Both \<^verbatim>\<open>try\<close> blocks catch every exception. In the second block a local
  variable that the first block left unbound raises UnboundLocalError.
\<close>

definition start_job ::
  "('v, 'w) env \<Rightarrow> 'v manager \<Rightarrow> ('v, 'w) world \<Rightarrow> job_result \<times> 'v executor \<times> ('v, 'w) world" where
  "start_job E m w =
     (case read_job (current_job m) of (l, raised) \<Rightarrow>
        (let w1 = (case raised of
                     None \<Rightarrow> log_info ''start_job() - file title'' w
                   | Some e \<Rightarrow> log_exception ''Error retrieving job info from start_job()'' e w);
             failed = (\<lambda>e s x. (Failed e, s, log_exception ''Error in job manager start_job()'' e x))
         in case local_info l of
              None \<Rightarrow> failed (UnboundLocalError ''info'') (execute m) w1
            | Some job_info \<Rightarrow>
                (case local_target_index_type l of
                   None \<Rightarrow> failed (UnboundLocalError ''target_index_type'') (execute m) w1
                 | Some ty \<Rightarrow>
                     (case local_text_file l of
                        None \<Rightarrow> failed (UnboundLocalError ''text_file'') (execute m) w1
                      | Some file \<Rightarrow>
                          (case start E job_info ty file (execute m, w1) of
                             (Inl e, s1, w2) \<Rightarrow> failed e s1 w2
                           | (Inr result, s1, w2) \<Rightarrow>
                               (case local_title l of
                                  None \<Rightarrow> failed (UnboundLocalError ''_title'') s1 w2
                                | Some title \<Rightarrow>
                                    (Returned result, s1,
                                     log_info ''start_job() - Jobs done'' w2)))))))"

text \<open>
  \<^verbatim>\<open>_JobManagement.start_jobs\<close>, the worker loop. The value of \<^verbatim>\<open>start_job\<close> is bound
  to the local \<^verbatim>\<open>result\<close> and not used. The one-second pause is not modelled.
\<close>

function start_jobs ::
  "('v, 'w) env \<Rightarrow> 'v manager \<times> ('v, 'w) world \<Rightarrow> 'v manager \<times> ('v, 'w) world" where
  "start_jobs E (m, w) =
     (case queue m of
        [] \<Rightarrow> (m\<lparr>status := ''idle''\<rparr>, w)
      | job # rest \<Rightarrow>
          (case start_job E (m\<lparr>queue := rest, current_job := Some job\<rparr>) w of
             (result, s1, w1) \<Rightarrow>
               start_jobs E (m\<lparr>queue := rest, current_job := None, execute := s1\<rparr>, w1)))"
  by pat_completeness auto
termination
  by (relation "measure (\<lambda>(E, m, w). length (queue m))") auto

declare start_jobs.simps [simp del]

text \<open>
  \<^verbatim>\<open>_JobManagement.record_job_history\<close>. Both values that \<^verbatim>\<open>start_job\<close> returns are
  truthy (\<^verbatim>\<open>True\<close>, and a dictionary that is not empty). The name \<^verbatim>\<open>job\<close> is not
  bound in the method or in the module.
\<close>

fun truthy :: "job_result \<Rightarrow> bool" where
  "truthy (Returned b) = b"
| "truthy (Failed e) = True"

definition record_job_history :: "'v manager \<Rightarrow> job_result \<Rightarrow> exn + job_result \<times> 'v manager" where
  "record_job_history m result =
     (let key = (if truthy result then ''Success'' else ''Failed'') in
      case map_of (jobs_history m) key of
        None \<Rightarrow> Inl (KeyError key)
      | Some entries \<Rightarrow> Inl (NameError ''job''))"

text \<open>
  \<^verbatim>\<open>_JobManagement.get_status_summary\<close>, which the route
  \<^verbatim>\<open>/get/job-manager-status/\<close> returns as it is.
\<close>

record 'v status_summary =
  summary_title :: "'v pyval"
  summary_type :: "'v pyval"
  summary_step :: "'v pyval"
  summary_queue_length :: nat

definition get_status_summary :: "'v manager \<Rightarrow> exn + 'v status_summary" where
  "get_status_summary m =
     (case current_job m of
        None \<Rightarrow>
          Inr \<lparr>summary_title = PNone, summary_type = PNone, summary_step = PNone,
               summary_queue_length = length (queue m)\<rparr>
      | Some job \<Rightarrow>
          and_then (getitem (settings job) ''target_index_type'') (\<lambda>ty.
          and_then (get_property (settings job)
                      (if ty = PStr ''full_text'' then ''title''
                       else ''original_full_text_data_title'')) (\<lambda>title.
            Inr \<lparr>summary_title = title, summary_type = ty,
                 summary_step = PStr (current_step (execute m)),
                 summary_queue_length = length (queue m)\<rparr>)))"

section \<open>A test double for the collaborators\<close>

text \<open>
  A small environment used to run the model on concrete jobs. Vectors are natural
  numbers, the outside world counts the calls made so far. The document store
  acknowledges every write with the same \<^verbatim>\<open>_id\<close>; a read of the field \<^verbatim>\<open>text\<close>
  returns a stored document, any other read a metadata record with three documents
  counted; the embedding of a text is its length; the extraction library raises on the
  document titled \<^verbatim>\<open>corrupt\<close>.
\<close>

definition stub_document :: "nat pyval" where
  "stub_document =
     PDict [(''contents'', PDict [(''1'', PDict [(''text'', PStr ''Hello world. Next one.'')])]),
            (''document_title'', PStr ''Report''), (''document_type'', PStr ''pdf''),
            (''contents_index_type'', PStr ''page_number'')]"

fun stub_vector :: "nat pyval \<Rightarrow> nat" where
  "stub_vector (PStr t) = length t"
| "stub_vector _ = 0"

fun stub_component :: "nat pyval \<Rightarrow> nat" where
  "stub_component (PVec v) = v"
| "stub_component _ = 0"

definition stub_mean :: "nat pyval list \<Rightarrow> nat pyval" where
  "stub_mean vs = PVec (sum_list (map stub_component vs) div length vs)"

definition stub_env :: "(nat, nat) env" where
  "stub_env =
     \<lparr>es_index = (\<lambda>name doc x. (Inr (PDict [(''_id'', PStr ''id-1'')]), Suc x)),
      es_get = (\<lambda>name ident field_names x.
         (Inr (PDict [(''_source'',
                 if field_names = [''text''] then PDict [(''text'', PStr ''{}'')]
                 else PDict [(''latest_update'', PStr ''t0''), (''number_of_data'', PInt 3)])]),
          Suc x)),
      es_update = (\<lambda>name ident doc x. (Inr (), Suc x)),
      embeddings_create = (\<lambda>model_name text_list x. (Inr (map stub_vector text_list), Suc x)),
      text_extraction = (\<lambda>file doc_title doc_type x.
         if doc_title = PStr ''corrupt'' then (Inl (Raised ''corrupt document''), x)
         else (Inr stub_document, Suc x)),
      semantic_chunking = (\<lambda>job_info doc x. (Inr [''Hello world.'', ''Next one.''], Suc x)),
      now_iso = (\<lambda>x. ''t1''),
      json_dumps = (\<lambda>v. ''{}''),
      json_loads = (\<lambda>t. Inr stub_document),
      np_mean = stub_mean,
      py_str = (\<lambda>v. ''None'')\<rparr>"


definition stub_world :: "(nat, nat) world" where
  "stub_world = \<lparr>es_calls = [], logs = [], outside = 0\<rparr>"

text \<open>
  Settings as the front end sends them (\<^verbatim>\<open>frontend/pages/DB_management\<close>): every key
  is present, the ones a job type does not use are \<^verbatim>\<open>None\<close>.
\<close>

definition full_text_settings :: "string \<Rightarrow> nat pyval" where
  "full_text_settings title =
     PDict [(''target_index_type'', PStr ''full_text''),
            (''index_name_full_text'', PStr ''reports''),
            (''index_name_full_vector'', PNone),
            (''index_name_chunked_pairs'', PNone),
            (''properties'', PDict [(''title'', PStr title), (''source_type'', PStr ''pdf'')]),
            (''embedding_model'', PNone),
            (''metadata_index_modify_id'', PStr ''meta-1''),
            (''full_text_index_modify_id'', PNone)]"

definition vector_settings :: "string \<Rightarrow> nat pyval \<Rightarrow> nat pyval \<Rightarrow> nat pyval" where
  "vector_settings ty vector_index pairs_index =
     PDict [(''target_index_type'', PStr ty),
            (''index_name_full_text'', PStr ''reports''),
            (''index_name_full_vector'', vector_index),
            (''index_name_chunked_pairs'', pairs_index),
            (''properties'', PDict [(''original_full_text_index_name'', PStr ''reports''),
                                    (''original_full_text_data_id'', PStr ''id-1''),
                                    (''original_full_text_data_title'', PStr ''Report'')]),
            (''embedding_model'', PStr ''embedding/BAAI/bge-m3''),
            (''metadata_index_modify_id'', PStr ''meta-2''),
            (''full_text_index_modify_id'', PNone)]"

definition full_text_job :: "string \<Rightarrow> nat job" where
  "full_text_job title = \<lparr>settings = full_text_settings title, text_file = Some ''%PDF''\<rparr>"

section \<open>Vocabulary for the properties\<close>





section \<open>Properties of the chunking strategies\<close>

lemma word_loop_keeps: "word_loop C r acc xs = Inr ys \<Longrightarrow> ys = acc"
  by (induction xs) (auto split: sum.splits)

lemma naive_word_chunking_start_empty:
  "naive_word_chunking_start C r xs = Inr ys \<Longrightarrow> ys = []"
  unfolding naive_word_chunking_start_def by (rule word_loop_keeps)

text \<open>
  Claim C6. Fixed-word chunking is meant to return the sliding windows over the tokens
  of each unit, at least one for a unit that is not empty. For chunk size 2, overlap 0
  and the single unit \<^verbatim>\<open>"a b c"\<close> the windows \<^verbatim>\<open>"a b"\<close> and \<^verbatim>\<open>"c"\<close> are computed, and
  \<^verbatim>\<open>naive_word_chunking.start\<close> returns the empty list: the windows are never added to
  the list that is returned.
\<close>

theorem naive_word_chunking_returns_nothing:
  "word_windows 2 0 ''a b c'' = Inr [''a b'', ''c''] \<and>
   naive_word_chunking_start 2 0 [''a b c''] = Inr []"
  by (simp add: naive_word_chunking_start_def word_windows_def split_space_def np_arange_def
      int_trunc_def slice_from_def upt_rec)

section \<open>Properties of the executor\<close>

text \<open>
  Claim C10. For a job type that is none of \<^verbatim>\<open>full_text\<close>, \<^verbatim>\<open>full_vector\<close> and
  \<^verbatim>\<open>chunked_pairs\<close>, \<^verbatim>\<open>execute.start\<close> runs no stage and sends nothing to the document
  store (the world is unchanged and the only step recorded is the final \<^verbatim>\<open>idle\<close>),
  clears \<^verbatim>\<open>info\<close> and \<^verbatim>\<open>output\<close>, sets \<^verbatim>\<open>current_step\<close> to \<^verbatim>\<open>idle\<close> and returns
  \<^verbatim>\<open>True\<close>, as it does for a job that succeeded.
\<close>

theorem start_unknown_type:
  assumes "job_type \<noteq> PStr ''full_text''" "job_type \<noteq> PStr ''full_vector''"
    "job_type \<noteq> PStr ''chunked_pairs''"
  shows "start E job_info job_type file (s, w) =
     (Inr True, s\<lparr>info := PNone, output := PNone, current_step := ''idle'',
                  step_trace := step_trace s @ [''idle'']\<rparr>, w)"
  using assms by (simp add: start_def dispatch_def set_step_def)

theorem start_unknown_type_witness:
  "PStr ''summary'' \<noteq> (PStr ''full_text'' :: nat pyval) \<and>
   PStr ''summary'' \<noteq> (PStr ''full_vector'' :: nat pyval) \<and>
   PStr ''summary'' \<noteq> (PStr ''chunked_pairs'' :: nat pyval) \<and>
   start stub_env (full_text_settings ''Report'') (PStr ''summary'') None (init_executor, stub_world) =
     (Inr True, \<lparr>info = PNone, output = PNone, current_step = ''idle'',
                 step_trace = [''idle'', ''idle'']\<rparr>, stub_world)"
  using start_unknown_type [of "PStr ''summary''" stub_env "full_text_settings ''Report''" None
      init_executor stub_world]
  by (simp add: init_executor_def)

section \<open>Properties of the job queue and the worker\<close>






lemma build_one: "build_jobs stub_env [(''{}'', Some ''%PDF'')] = Inr [\<lparr>settings = stub_document, text_file = Some ''%PDF''\<rparr>]"
  by (simp add: stub_env_def and_then_def)



lemma start_job_reads:
  "current_job m = current_job m' \<Longrightarrow> execute m = execute m' \<Longrightarrow> start_job E m w = start_job E m' w"
  by (simp add: start_job_def Let_def cong: option.case_cong prod.case_cong sum.case_cong)

lemma start_jobs_fold:
  "start_jobs E (m, w) =
     (case foldl (\<lambda>(s, x) job. snd (start_job E (m\<lparr>current_job := Some job, execute := s\<rparr>) x))
             (execute m, w) (queue m) of
        (s', w') \<Rightarrow>
          (m\<lparr>queue := [], status := ''idle'',
             current_job := (if queue m = [] then current_job m else None),
             execute := s'\<rparr>, w'))"
proof (induction q \<equiv> "queue m" arbitrary: m w)
  case Nil
  then show ?case by (subst start_jobs.simps) simp
next
  case (Cons job rest)
  have q: "queue m = job # rest" using Cons.hyps(2) by simp
  obtain result s1 w1 where sj:
    "start_job E (m\<lparr>queue := rest, current_job := Some job\<rparr>) w = (result, s1, w1)"
    by (cases "start_job E (m\<lparr>queue := rest, current_job := Some job\<rparr>) w") auto
  have sj': "snd (start_job E (m\<lparr>current_job := Some job\<rparr>) w) = (s1, w1)"
    using sj start_job_reads [of "m\<lparr>current_job := Some job\<rparr>"
        "m\<lparr>queue := rest, current_job := Some job\<rparr>" E w] by simp
  let ?m2 = "m\<lparr>queue := rest, current_job := None, execute := s1\<rparr>"
  have step: "(\<lambda>(s, x) j. snd (start_job E (?m2\<lparr>current_job := Some j, execute := s\<rparr>) x)) =
      (\<lambda>(s, x) j. snd (start_job E (m\<lparr>current_job := Some j, execute := s\<rparr>) x))"
  proof -
    have "\<And>s x j. start_job E (?m2\<lparr>current_job := Some j, execute := s\<rparr>) x =
        start_job E (m\<lparr>current_job := Some j, execute := s\<rparr>) x"
      by (rule start_job_reads) simp_all
    then show ?thesis by simp
  qed
  have "start_jobs E (m, w) = start_jobs E (?m2, w1)"
    by (subst start_jobs.simps) (simp add: q sj)
  also have "\<dots> = (case foldl (\<lambda>(s, x) job. snd (start_job E (?m2\<lparr>current_job := Some job, execute := s\<rparr>) x))
             (execute ?m2, w1) (queue ?m2) of
        (s', w') \<Rightarrow>
          (?m2\<lparr>queue := [], status := ''idle'',
             current_job := (if queue ?m2 = [] then current_job ?m2 else None),
             execute := s'\<rparr>, w'))"
    by (rule Cons.hyps(1)) simp
  finally show ?case
    unfolding step by (simp add: q sj' split: prod.splits)
qed


lemma start_jobs_fields:
  "status (fst (start_jobs E (m, w))) = ''idle'' \<and> queue (fst (start_jobs E (m, w))) = [] \<and>
   jobs_history (fst (start_jobs E (m, w))) = jobs_history m \<and>
   current_job (fst (start_jobs E (m, w))) = (if queue m = [] then current_job m else None)"
  by (simp add: start_jobs_fold split: prod.splits)








lemma get_status_summary_history:
  "get_status_summary (m\<lparr>jobs_history := h\<rparr>) = get_status_summary m"
  by (simp add: get_status_summary_def cong: option.case_cong)

text \<open>
  Claim C9 (amended). The status summary does not depend on the job history, and after
  the worker has run a queue that was not empty the current job is cleared and the
  summary shows no title, no type, no step and a queue length of zero: it holds no
  success or failure counter.
\<close>

theorem status_after_jobs:
  "get_status_summary (m\<lparr>jobs_history := h\<rparr>) = get_status_summary m \<and>
   (queue m \<noteq> [] \<longrightarrow>
      current_job (fst (start_jobs E (m, w))) = None \<and>
      get_status_summary (fst (start_jobs E (m, w))) =
        Inr \<lparr>summary_title = PNone, summary_type = PNone, summary_step = PNone,
             summary_queue_length = 0\<rparr>)"
  by (simp add: get_status_summary_history) (simp add: get_status_summary_def start_jobs_fields)

theorem status_after_jobs_witness:
  "queue (init_manager\<lparr>queue := [full_text_job ''Report'']\<rparr> :: nat manager) \<noteq> [] \<and>
   current_job (fst (start_jobs stub_env (init_manager\<lparr>queue := [full_text_job ''Report'']\<rparr>, stub_world))) = None \<and>
   get_status_summary (fst (start_jobs stub_env (init_manager\<lparr>queue := [full_text_job ''Report'']\<rparr>, stub_world))) =
     Inr \<lparr>summary_title = PNone, summary_type = PNone, summary_step = PNone,
          summary_queue_length = 0\<rparr>"
  using status_after_jobs [where m = "init_manager\<lparr>queue := [full_text_job ''Report'']\<rparr>"
      and h = "[]" and E = stub_env and w = stub_world]
  by simp

text \<open>
  Claim C9 as stated fails: after a queue with one job that fails and one that succeeds,
  both lists of the job history are empty and the status summary carries no counter;
  \<^verbatim>\<open>record_job_history\<close>, which the worker never calls, would raise KeyError.
\<close>

theorem job_history_counterexample:
  "jobs_history (fst (start_jobs stub_env
      (init_manager\<lparr>queue := [full_text_job ''corrupt'', full_text_job ''Report'']\<rparr>, stub_world))) =
     [(''success'', []), (''failed'', [])] \<and>
   get_status_summary (fst (start_jobs stub_env
      (init_manager\<lparr>queue := [full_text_job ''corrupt'', full_text_job ''Report'']\<rparr>, stub_world))) =
     Inr \<lparr>summary_title = PNone, summary_type = PNone, summary_step = PNone,
          summary_queue_length = 0\<rparr> \<and>
   record_job_history (init_manager :: nat manager) (Returned True) = Inl (KeyError ''Success'')"
  by (simp add: start_jobs_fields get_status_summary_def record_job_history_def init_manager_def)

section \<open>The write to the index and the metadata update\<close>















lemma startswith_metadata: "startswith (''metadata_'' @ t) ''metadata''"
  by (simp add: startswith_def)








section \<open>The steps of a run\<close>




















section \<open>Where a run stops when a stage raises\<close>















end
